theory Spec2Isabelle
  imports Main "HOL-Library.Word"
begin

unbundle bit_operations_syntax

section \<open>The PKCS\#11 ECDSA signing sample: \<open>crypto-ops/signing/pkcs11/ecdsa_sign.cpp\<close>\<close>

text \<open>
  The program is one \<open>main\<close> that calls a PKCS\#11 token library, \<open>malloc\<close>,
  \<open>printf\<close> and \<open>exit\<close>. Everything it does is visible in these calls, so its
  meaning is taken to be the sequence of calls it makes, given what the library and the
  allocator answer. The library and the allocator are arbitrary: an environment with a
  state of its own, whose answers are not constrained.
\<close>

subsection \<open>Types of the token interface\<close>

text \<open>
  The header \<open>dy_pkcs11.h\<close> is not among the sources. Its integer types are read as
  those of the PKCS\#11 interface it declares: \<open>CK_BYTE\<close> is an unsigned char,
  \<open>CK_BBOOL\<close> a \<open>CK_BYTE\<close>, and \<open>CK_ULONG\<close> an unsigned long (64 bits here), of
  which return values, flags, handles and identifiers are synonyms. The program does no
  arithmetic on any of them.
\<close>

type_synonym CK_BYTE = "8 word"
type_synonym CK_BBOOL = CK_BYTE
type_synonym CK_ULONG = "64 word"
type_synonym CK_RV = CK_ULONG
type_synonym CK_FLAGS = CK_ULONG
type_synonym CK_SLOT_ID = CK_ULONG
type_synonym CK_SESSION_HANDLE = CK_ULONG
type_synonym CK_OBJECT_HANDLE = CK_ULONG
type_synonym CK_USER_TYPE = CK_ULONG
type_synonym CK_MECHANISM_TYPE = CK_ULONG
type_synonym CK_ATTRIBUTE_TYPE = CK_ULONG

text \<open>
  The named constants of the header that \<open>main\<close> uses. Their values are not in the
  sources, so \<open>main\<close> takes them as a parameter and every theorem holds for any values.
\<close>

record dy_pkcs11 =
  CKR_OK :: CK_RV
  CKF_SERIAL_SESSION :: CK_FLAGS
  CKF_RW_SESSION :: CK_FLAGS
  CKU_USER :: CK_USER_TYPE
  CKM_EC_KEY_PAIR_GEN :: CK_MECHANISM_TYPE
  CKM_ECDSA_SHA256 :: CK_MECHANISM_TYPE
  CKA_TOKEN :: CK_ATTRIBUTE_TYPE
  CKA_EC_PARAMS :: CK_ATTRIBUTE_TYPE
  CKA_SIGN :: CK_ATTRIBUTE_TYPE
  CK_FALSE :: CK_BBOOL
  CK_TRUE :: CK_BBOOL

text \<open>
  A pointer argument is \<open>NULL\<close>, or the address of an object together with what the
  callee finds there at the time of the call. \<open>Local ''x''\<close> is the address of the
  variable \<open>x\<close> of \<open>main\<close>; \<open>Heap n\<close> is a block handed out by \<open>malloc\<close>.
\<close>

datatype addr = Local string | Heap nat

datatype 'a pointer = NULL | Ref addr 'a

text \<open>What a pointer points to after the callee has stored \<open>v\<close> through it.\<close>

fun stored :: "'a pointer \<Rightarrow> 'a \<Rightarrow> 'a pointer" where
  "stored NULL v = NULL"
| "stored (Ref a old) v = Ref a v"

record CK_MECHANISM =
  mechanism :: CK_MECHANISM_TYPE
  pParameter :: "CK_BYTE list pointer"
  ulParameterLen :: CK_ULONG

record CK_ATTRIBUTE =
  type :: CK_ATTRIBUTE_TYPE
  pValue :: "CK_BYTE list pointer"
  ulValueLen :: CK_ULONG

text \<open>
  The ten functions of the token interface that \<open>main\<close> calls, with the arguments of
  their C prototypes in order. A variable that has not been initialised holds \<open>None\<close>.
\<close>

datatype call =
    C_Initialize "unit pointer"
  | C_OpenSession CK_SLOT_ID CK_FLAGS "unit pointer" "unit pointer"
      "CK_SESSION_HANDLE pointer"
  | C_Login CK_SESSION_HANDLE CK_USER_TYPE "CK_BYTE list pointer" CK_ULONG
  | C_GenerateKeyPair CK_SESSION_HANDLE "CK_MECHANISM pointer"
      "CK_ATTRIBUTE list pointer" CK_ULONG "CK_ATTRIBUTE list pointer" CK_ULONG
      "CK_OBJECT_HANDLE pointer" "CK_OBJECT_HANDLE pointer"
  | C_SignInit CK_SESSION_HANDLE "CK_MECHANISM pointer" CK_OBJECT_HANDLE
  | C_Sign CK_SESSION_HANDLE "CK_BYTE list pointer" CK_ULONG "CK_BYTE list pointer"
      "CK_ULONG option pointer"
  | C_VerifyInit CK_SESSION_HANDLE "CK_MECHANISM pointer" CK_OBJECT_HANDLE
  | C_Verify CK_SESSION_HANDLE "CK_BYTE list pointer" CK_ULONG "CK_BYTE list pointer"
      CK_ULONG
  | C_CloseSession CK_SESSION_HANDLE
  | C_Finalize "unit pointer"

text \<open>
  What a call into the library leaves behind: its return value, and the contents of
  the objects it was given a pointer to write. The library is taken to write through
  these output parameters only. A field is read only after a call that has the
  parameter.
\<close>

record reply =
  ret :: CK_RV
  phSession_out :: CK_SESSION_HANDLE
  phPublicKey_out :: CK_OBJECT_HANDLE
  phPrivateKey_out :: CK_OBJECT_HANDLE
  pSignature_out :: "CK_BYTE list"
  pulSignatureLen_out :: CK_ULONG

text \<open>The environment of the program: the token library and the C allocator.\<close>

record 'w environment =
  token :: "call \<Rightarrow> 'w \<Rightarrow> reply \<times> 'w"
  malloc :: "CK_ULONG \<Rightarrow> 'w \<Rightarrow> CK_BYTE list pointer \<times> 'w"

text \<open>What the program does that can be seen from outside, in order.\<close>

datatype event =
    Token call reply
  | Malloc CK_ULONG "CK_BYTE list pointer"
  | Printf string
  | Exit int
  | Return int

type_synonym 'w state = "'w \<times> event list"

definition api :: "'w environment \<Rightarrow> call \<Rightarrow> 'w state \<Rightarrow> reply \<times> 'w state" where
  "api env c s =
     (let (r, w) = token env c (fst s) in (r, (w, snd s @ [Token c r])))"

definition alloc :: "'w environment \<Rightarrow> CK_ULONG \<Rightarrow> 'w state \<Rightarrow> CK_BYTE list pointer \<times> 'w state" where
  "alloc env n s =
     (let (p, w) = malloc env n (fst s) in (p, (w, snd s @ [Malloc n p])))"

subsection \<open>The C library functions used\<close>

text \<open>\<open>printf\<close> with \<open>%08lx\<close>: lower-case hexadecimal, at least eight digits.\<close>

definition hex_digit :: "nat \<Rightarrow> char" where
  "hex_digit d = ''0123456789abcdef'' ! d"

fun hex :: "nat \<Rightarrow> string" where
  "hex n = (if n < 16 then [hex_digit n] else hex (n div 16) @ [hex_digit (n mod 16)])"

declare hex.simps [simp del]

definition fmt_08lx :: "CK_ULONG \<Rightarrow> string" where
  "fmt_08lx v = (let ds = hex (unat v) in replicate (8 - length ds) CHR ''0'' @ ds)"

text \<open>A string literal as the array it initialises: its characters and a final 0.\<close>

definition string_literal :: "string \<Rightarrow> CK_BYTE list" where
  "string_literal cs = map of_char cs @ [0]"

definition strlen :: "CK_BYTE list \<Rightarrow> nat" where
  "strlen bs = length (takeWhile (\<lambda>b. b \<noteq> 0) bs)"

subsection \<open>The program\<close>

definition halt :: "CK_RV \<Rightarrow> 'w state \<Rightarrow> 'w state" where
  "halt rv s =
     (fst s, snd s @ [Printf (''Error '' @ fmt_08lx rv @ [CHR 0x0A]), Exit (- 1)])"

text \<open>
  \<open>main\<close>, statement by statement. \<open>argc\<close> and \<open>argv\<close> are not used. \<open>sizeof\<close> of an array
  is the number of its bytes, \<open>sizeof (CK_BBOOL)\<close> is 1, and \<open>sizeof\<close> of a template
  divided by \<open>sizeof (CK_ATTRIBUTE)\<close> is the number of its elements. A variable whose
  address was passed to a call (\<open>hSession\<close>, \<open>pub_key\<close>, \<open>prv_key\<close>, \<open>signature_len\<close>
  and the block at \<open>signature\<close>) holds afterwards what the reply says was stored.
  \<open>halt\<close> does not return, so the statements after it are the \<open>else\<close> branch. Falling
  off the end of \<open>main\<close> returns 0.
\<close>

definition main :: "dy_pkcs11 \<Rightarrow> 'w environment \<Rightarrow> 'w \<Rightarrow> 'w state" where
  "main h env w0 =
    (let s = (w0, []);
         slot_id = 0;
         hSession = 0;
         data_to_sign = string_literal ''data to sign'';
         (r, s) = api env (C_Initialize NULL) s;
         rv = ret r
     in if rv \<noteq> CKR_OK h then halt rv s else
     let (r, s) = api env (C_OpenSession slot_id (CKF_SERIAL_SESSION h OR CKF_RW_SESSION h)
                    NULL NULL (Ref (Local ''hSession'') hSession)) s;
         rv = ret r;
         hSession = phSession_out r
     in if rv \<noteq> CKR_OK h then halt rv s else
     let password = string_literal '''';
         (r, s) = api env (C_Login hSession (CKU_USER h) (Ref (Local ''password'') password)
                    (of_nat (strlen password))) s;
         rv = ret r
     in if rv \<noteq> CKR_OK h then halt rv s else
     let ecdsa_gen = \<lparr>mechanism = CKM_EC_KEY_PAIR_GEN h, pParameter = NULL, ulParameterLen = 0\<rparr>;
         p256_curve = [0x06, 0x08, 0x2a, 0x86, 0x48, 0xce, 0x3d, 0x03, 0x01, 0x07];
         ck_false = CK_FALSE h;
         ck_true = CK_TRUE h;
         pub_template =
           [\<lparr>type = CKA_TOKEN h, pValue = Ref (Local ''ck_false'') [ck_false], ulValueLen = 1\<rparr>,
            \<lparr>type = CKA_EC_PARAMS h, pValue = Ref (Local ''p256_curve'') p256_curve,
             ulValueLen = of_nat (length p256_curve)\<rparr>];
         prv_template =
           [\<lparr>type = CKA_TOKEN h, pValue = Ref (Local ''ck_true'') [ck_true], ulValueLen = 1\<rparr>,
            \<lparr>type = CKA_SIGN h, pValue = Ref (Local ''ck_true'') [ck_true], ulValueLen = 1\<rparr>];
         pub_key = 0;
         prv_key = 0;
         (r, s) = api env (C_GenerateKeyPair hSession (Ref (Local ''ecdsa_gen'') ecdsa_gen)
                    (Ref (Local ''pub_template'') pub_template) (of_nat (length pub_template))
                    (Ref (Local ''prv_template'') prv_template) (of_nat (length prv_template))
                    (Ref (Local ''pub_key'') pub_key) (Ref (Local ''prv_key'') prv_key)) s;
         rv = ret r;
         pub_key = phPublicKey_out r;
         prv_key = phPrivateKey_out r
     in if rv \<noteq> CKR_OK h then halt rv s else
     let ecdsa_sign = \<lparr>mechanism = CKM_ECDSA_SHA256 h, pParameter = NULL, ulParameterLen = 0\<rparr>;
         (r, s) = api env (C_SignInit hSession (Ref (Local ''ecdsa_sign'') ecdsa_sign) prv_key) s;
         rv = ret r
     in if rv \<noteq> CKR_OK h then halt rv s else
     let signature_len = None;
         (r, s) = api env (C_Sign hSession (Ref (Local ''data_to_sign'') data_to_sign)
                    (of_nat (length data_to_sign)) NULL
                    (Ref (Local ''signature_len'') signature_len)) s;
         rv = ret r;
         signature_len = pulSignatureLen_out r
     in if rv \<noteq> CKR_OK h then halt rv s else
     let (signature, s) = alloc env signature_len s;
         (r, s) = api env (C_Sign hSession (Ref (Local ''data_to_sign'') data_to_sign)
                    (of_nat (length data_to_sign)) signature
                    (Ref (Local ''signature_len'') (Some signature_len))) s;
         rv = ret r;
         signature = stored signature (pSignature_out r);
         signature_len = pulSignatureLen_out r
     in if rv \<noteq> CKR_OK h then halt rv s else
     let (r, s) = api env (C_VerifyInit hSession (Ref (Local ''ecdsa_sign'') ecdsa_sign) pub_key) s;
         rv = ret r
     in if rv \<noteq> CKR_OK h then halt rv s else
     let (r, s) = api env (C_Verify hSession (Ref (Local ''data_to_sign'') data_to_sign)
                    (of_nat (length data_to_sign)) signature signature_len) s;
         rv = ret r
     in if rv \<noteq> CKR_OK h then halt rv s else
     let (r, s) = api env (C_CloseSession hSession) s;
         (r, s) = api env (C_Finalize NULL) s
     in (fst s, snd s @ [Return 0]))"

subsection \<open>Reading a run\<close>

text \<open>The name of the library function that a call is to.\<close>

fun api_name :: "call \<Rightarrow> string" where
  "api_name (C_Initialize a) = ''C_Initialize''"
| "api_name (C_OpenSession sl fl a n ph) = ''C_OpenSession''"
| "api_name (C_Login hs u p n) = ''C_Login''"
| "api_name (C_GenerateKeyPair hs m tp np tq nq pk qk) = ''C_GenerateKeyPair''"
| "api_name (C_SignInit hs m k) = ''C_SignInit''"
| "api_name (C_Sign hs d n sg l) = ''C_Sign''"
| "api_name (C_VerifyInit hs m k) = ''C_VerifyInit''"
| "api_name (C_Verify hs d n sg sl) = ''C_Verify''"
| "api_name (C_CloseSession hs) = ''C_CloseSession''"
| "api_name (C_Finalize a) = ''C_Finalize''"

text \<open>The session handle that a call passes by value, if its prototype has one.\<close>

fun session_of :: "call \<Rightarrow> CK_SESSION_HANDLE option" where
  "session_of (C_Login hs u p n) = Some hs"
| "session_of (C_GenerateKeyPair hs m tp np tq nq pk qk) = Some hs"
| "session_of (C_SignInit hs m k) = Some hs"
| "session_of (C_Sign hs d n sg l) = Some hs"
| "session_of (C_VerifyInit hs m k) = Some hs"
| "session_of (C_Verify hs d n sg sl) = Some hs"
| "session_of (C_CloseSession hs) = Some hs"
| "session_of c = None"

text \<open>The calls into the token library among the events of a run, with their replies.\<close>

fun calls :: "event list \<Rightarrow> (call \<times> reply) list" where
  "calls [] = []"
| "calls (Token c r # es) = (c, r) # calls es"
| "calls (e # es) = calls es"

subsection \<open>Concrete environments\<close>

text \<open>The values that the PKCS\#11 v2.40 headers give to the constants.\<close>

definition pkcs11_v2_40 :: dy_pkcs11 where
  "pkcs11_v2_40 =
     \<lparr>CKR_OK = 0, CKF_SERIAL_SESSION = 4, CKF_RW_SESSION = 2, CKU_USER = 1,
      CKM_EC_KEY_PAIR_GEN = 0x1040, CKM_ECDSA_SHA256 = 0x1044, CKA_TOKEN = 1,
      CKA_EC_PARAMS = 0x180, CKA_SIGN = 0x108, CK_FALSE = 0, CK_TRUE = 1\<rparr>"

definition sig64 :: "CK_BYTE list" where
  "sig64 = replicate 64 0x5a"

text \<open>
  A reply with return value \<open>v\<close>, session 1, public key 2, private key 3 and a
  signature of 64 bytes.
\<close>

definition answer :: "CK_RV \<Rightarrow> reply" where
  "answer v =
     \<lparr>ret = v, phSession_out = 1, phPublicKey_out = 2, phPrivateKey_out = 3,
      pSignature_out = sig64, pulSignatureLen_out = 64\<rparr>"

text \<open>
  A library without state that answers \<open>CKR_GENERAL_ERROR\<close> (5) to the function
  named \<open>f\<close> and \<open>CKR_OK\<close> to every other one, with an allocator that succeeds.
\<close>

definition zeros :: "nat \<Rightarrow> CK_BYTE list" where
  "zeros n = replicate n 0"

definition failing :: "string \<Rightarrow> unit environment" where
  "failing f =
     \<lparr>token = (\<lambda>c w. (answer (if api_name c = f then 5 else 0), w)),
      malloc = (\<lambda>n w. (Ref (Heap 0) (zeros (unat n)), w))\<rparr>"

text \<open>A library that answers \<open>CKR_OK\<close> to everything, with an allocator that fails.\<close>

definition out_of_memory :: "unit environment" where
  "out_of_memory = \<lparr>token = (\<lambda>c w. (answer 0, w)), malloc = (\<lambda>n w. (NULL, w))\<rparr>"

subsection \<open>Every run follows one script\<close>

text \<open>
  A device for the proofs: the events of a run are those of the list \<open>script\<close>, cut
  by \<open>checked\<close> after the first of its first nine library calls that does not return
  \<open>CKR_OK\<close>. \<open>r1\<close> to \<open>r11\<close> are the replies of the library and \<open>p\<close> is what
  \<open>malloc\<close> returned. Lemma \<open>main_script\<close> derives this from \<open>main\<close>; the
  theorems are stated about \<open>main\<close>.
\<close>

definition error_exit :: "CK_RV \<Rightarrow> event list" where
  "error_exit rv = [Printf (''Error '' @ fmt_08lx rv @ [CHR 0x0A]), Exit (- 1)]"

fun checked :: "dy_pkcs11 \<Rightarrow> nat \<Rightarrow> event list \<Rightarrow> event list" where
  "checked h n [] = []"
| "checked h (Suc n) (Token c r # es) =
     Token c r # (if ret r \<noteq> CKR_OK h then error_exit (ret r) else checked h n es)"
| "checked h n (e # es) = e # checked h n es"

definition script :: "dy_pkcs11 \<Rightarrow> reply \<Rightarrow> reply \<Rightarrow> reply \<Rightarrow> reply \<Rightarrow> reply \<Rightarrow> reply \<Rightarrow>
    CK_BYTE list pointer \<Rightarrow> reply \<Rightarrow> reply \<Rightarrow> reply \<Rightarrow> reply \<Rightarrow> reply \<Rightarrow> event list" where
  "script h r1 r2 r3 r4 r5 r6 p r7 r8 r9 r10 r11 =
    [Token (C_Initialize NULL) r1,
     Token (C_OpenSession 0 (CKF_SERIAL_SESSION h OR CKF_RW_SESSION h) NULL NULL
        (Ref (Local ''hSession'') 0)) r2,
     Token (C_Login (phSession_out r2) (CKU_USER h) (Ref (Local ''password'') [0]) 0) r3,
     Token (C_GenerateKeyPair (phSession_out r2)
        (Ref (Local ''ecdsa_gen'')
          \<lparr>mechanism = CKM_EC_KEY_PAIR_GEN h, pParameter = NULL, ulParameterLen = 0\<rparr>)
        (Ref (Local ''pub_template'')
          [\<lparr>type = CKA_TOKEN h, pValue = Ref (Local ''ck_false'') [CK_FALSE h], ulValueLen = 1\<rparr>,
           \<lparr>type = CKA_EC_PARAMS h,
            pValue = Ref (Local ''p256_curve'')
              [0x06, 0x08, 0x2a, 0x86, 0x48, 0xce, 0x3d, 0x03, 0x01, 0x07],
            ulValueLen = 10\<rparr>]) 2
        (Ref (Local ''prv_template'')
          [\<lparr>type = CKA_TOKEN h, pValue = Ref (Local ''ck_true'') [CK_TRUE h], ulValueLen = 1\<rparr>,
           \<lparr>type = CKA_SIGN h, pValue = Ref (Local ''ck_true'') [CK_TRUE h], ulValueLen = 1\<rparr>]) 2
        (Ref (Local ''pub_key'') 0) (Ref (Local ''prv_key'') 0)) r4,
     Token (C_SignInit (phSession_out r2)
        (Ref (Local ''ecdsa_sign'')
          \<lparr>mechanism = CKM_ECDSA_SHA256 h, pParameter = NULL, ulParameterLen = 0\<rparr>)
        (phPrivateKey_out r4)) r5,
     Token (C_Sign (phSession_out r2)
        (Ref (Local ''data_to_sign'') (string_literal ''data to sign'')) 13 NULL
        (Ref (Local ''signature_len'') None)) r6,
     Malloc (pulSignatureLen_out r6) p,
     Token (C_Sign (phSession_out r2)
        (Ref (Local ''data_to_sign'') (string_literal ''data to sign'')) 13 p
        (Ref (Local ''signature_len'') (Some (pulSignatureLen_out r6)))) r7,
     Token (C_VerifyInit (phSession_out r2)
        (Ref (Local ''ecdsa_sign'')
          \<lparr>mechanism = CKM_ECDSA_SHA256 h, pParameter = NULL, ulParameterLen = 0\<rparr>)
        (phPublicKey_out r4)) r8,
     Token (C_Verify (phSession_out r2)
        (Ref (Local ''data_to_sign'') (string_literal ''data to sign'')) 13
        (stored p (pSignature_out r7)) (pulSignatureLen_out r7)) r9,
     Token (C_CloseSession (phSession_out r2)) r10,
     Token (C_Finalize NULL) r11,
     Return 0]"

section \<open>Properties\<close>

subsection \<open>Auxiliary facts\<close>

lemma string_literal_empty: "string_literal [] = [0]"
  by (simp add: string_literal_def)

lemma strlen_empty: "strlen [0] = 0"
  by (simp add: strlen_def)

lemma length_data_to_sign: "length (string_literal ''data to sign'') = 13"
  by (simp add: string_literal_def)

lemma main_script:
  obtains r1 r2 r3 r4 r5 r6 p r7 r8 r9 r10 r11 where
    "snd (main h env w) = checked h 9 (script h r1 r2 r3 r4 r5 r6 p r7 r8 r9 r10 r11)"
proof -
  let ?D = "Ref (Local ''data_to_sign'') (string_literal ''data to sign'')"
  let ?M = "Ref (Local ''ecdsa_sign'')
          \<lparr>mechanism = CKM_ECDSA_SHA256 h, pParameter = NULL, ulParameterLen = 0\<rparr>"
  obtain r1 w1 where t1: "token env (C_Initialize NULL) w = (r1, w1)"
    by fastforce
  obtain r2 w2 where t2: "token env (C_OpenSession 0 (CKF_SERIAL_SESSION h OR CKF_RW_SESSION h)
        NULL NULL (Ref (Local ''hSession'') 0)) w1 = (r2, w2)"
    by fastforce
  let ?hs = "phSession_out r2"
  obtain r3 w3 where t3: "token env (C_Login ?hs (CKU_USER h) (Ref (Local ''password'') [0]) 0) w2
      = (r3, w3)"
    by fastforce
  obtain r4 w4 where t4: "token env (C_GenerateKeyPair ?hs
        (Ref (Local ''ecdsa_gen'')
          \<lparr>mechanism = CKM_EC_KEY_PAIR_GEN h, pParameter = NULL, ulParameterLen = 0\<rparr>)
        (Ref (Local ''pub_template'')
          [\<lparr>type = CKA_TOKEN h, pValue = Ref (Local ''ck_false'') [CK_FALSE h], ulValueLen = 1\<rparr>,
           \<lparr>type = CKA_EC_PARAMS h,
            pValue = Ref (Local ''p256_curve'')
              [0x06, 0x08, 0x2a, 0x86, 0x48, 0xce, 0x3d, 0x03, 0x01, 0x07],
            ulValueLen = 10\<rparr>]) 2
        (Ref (Local ''prv_template'')
          [\<lparr>type = CKA_TOKEN h, pValue = Ref (Local ''ck_true'') [CK_TRUE h], ulValueLen = 1\<rparr>,
           \<lparr>type = CKA_SIGN h, pValue = Ref (Local ''ck_true'') [CK_TRUE h], ulValueLen = 1\<rparr>]) 2
        (Ref (Local ''pub_key'') 0) (Ref (Local ''prv_key'') 0)) w3 = (r4, w4)"
    by fastforce
  obtain r5 w5 where t5: "token env (C_SignInit ?hs ?M (phPrivateKey_out r4)) w4 = (r5, w5)"
    by fastforce
  obtain r6 w6 where t6: "token env (C_Sign ?hs ?D 13 NULL (Ref (Local ''signature_len'') None)) w5
      = (r6, w6)"
    by fastforce
  obtain p w7 where t7: "malloc env (pulSignatureLen_out r6) w6 = (p, w7)"
    by fastforce
  obtain r7 w8 where t8: "token env (C_Sign ?hs ?D 13 p
        (Ref (Local ''signature_len'') (Some (pulSignatureLen_out r6)))) w7 = (r7, w8)"
    by fastforce
  obtain r8 w9 where t9: "token env (C_VerifyInit ?hs ?M (phPublicKey_out r4)) w8 = (r8, w9)"
    by fastforce
  obtain r9 w10 where t10: "token env (C_Verify ?hs ?D 13 (stored p (pSignature_out r7))
        (pulSignatureLen_out r7)) w9 = (r9, w10)"
    by fastforce
  obtain r10 w11 where t11: "token env (C_CloseSession ?hs) w10 = (r10, w11)"
    by fastforce
  obtain r11 w12 where t12: "token env (C_Finalize NULL) w11 = (r11, w12)"
    by fastforce
  have "snd (main h env w) = checked h 9 (script h r1 r2 r3 r4 r5 r6 p r7 r8 r9 r10 r11)"
    unfolding main_def api_def alloc_def halt_def script_def
    by (simp add: Let_def error_exit_def string_literal_empty strlen_empty
        length_data_to_sign eval_nat_numeral t1 t2 t3 t4 t5 t6 t7 t8 t9 t10 t11 t12)
  then show ?thesis by (rule that)
qed

lemma answer_simps:
  "ret (answer v) = v" "phSession_out (answer v) = 1"
  "phPublicKey_out (answer v) = 2" "phPrivateKey_out (answer v) = 3"
  "pSignature_out (answer v) = sig64" "pulSignatureLen_out (answer v) = 64"
  by (simp_all add: answer_def)

lemma header_simps:
  "CKR_OK pkcs11_v2_40 = 0" "CKF_SERIAL_SESSION pkcs11_v2_40 = 4"
  "CKF_RW_SESSION pkcs11_v2_40 = 2" "CKU_USER pkcs11_v2_40 = 1"
  "CKM_EC_KEY_PAIR_GEN pkcs11_v2_40 = 0x1040" "CKM_ECDSA_SHA256 pkcs11_v2_40 = 0x1044"
  "CKA_TOKEN pkcs11_v2_40 = 1" "CKA_EC_PARAMS pkcs11_v2_40 = 0x180"
  "CKA_SIGN pkcs11_v2_40 = 0x108" "CK_FALSE pkcs11_v2_40 = 0" "CK_TRUE pkcs11_v2_40 = 1"
  by (simp_all add: pkcs11_v2_40_def)

text \<open>Four runs, computed.\<close>

lemma run_ok:
  "snd (main pkcs11_v2_40 (failing []) ()) =
     script pkcs11_v2_40 (answer 0) (answer 0) (answer 0) (answer 0) (answer 0) (answer 0)
       (Ref (Heap 0) (zeros 64)) (answer 0) (answer 0) (answer 0) (answer 0) (answer 0)"
  unfolding main_def api_def alloc_def halt_def script_def
  by (simp add: Let_def string_literal_empty strlen_empty answer_simps
        length_data_to_sign failing_def header_simps)

lemma run_close_fails:
  "snd (main pkcs11_v2_40 (failing ''C_CloseSession'') ()) =
     script pkcs11_v2_40 (answer 0) (answer 0) (answer 0) (answer 0) (answer 0) (answer 0)
       (Ref (Heap 0) (zeros 64)) (answer 0) (answer 0) (answer 0) (answer 5) (answer 0)"
  unfolding main_def api_def alloc_def halt_def script_def
  by (simp add: Let_def string_literal_empty strlen_empty answer_simps
        length_data_to_sign failing_def header_simps)

lemma run_login_fails:
  "snd (main pkcs11_v2_40 (failing ''C_Login'') ()) =
     [Token (C_Initialize NULL) (answer 0),
      Token (C_OpenSession 0 6 NULL NULL (Ref (Local ''hSession'') 0)) (answer 0),
      Token (C_Login 1 1 (Ref (Local ''password'') [0]) 0) (answer 5),
      Printf (''Error '' @ fmt_08lx 5 @ [CHR 0x0A]), Exit (- 1)]"
  unfolding main_def api_def alloc_def halt_def script_def
  by (simp add: Let_def string_literal_empty strlen_empty answer_simps
        length_data_to_sign failing_def header_simps)

lemma run_out_of_memory:
  "snd (main pkcs11_v2_40 out_of_memory ()) =
     script pkcs11_v2_40 (answer 0) (answer 0) (answer 0) (answer 0) (answer 0) (answer 0)
       NULL (answer 0) (answer 0) (answer 0) (answer 0) (answer 0)"
  unfolding main_def api_def alloc_def halt_def script_def
  by (simp add: Let_def string_literal_empty strlen_empty answer_simps
        length_data_to_sign out_of_memory_def header_simps)

lemma fmt_08lx_5: "fmt_08lx 5 = ''00000005''"
  by code_simp

lemma calls_error_exit: "calls (error_exit rv) = []"
  by (simp add: error_exit_def)

lemma calls_checked_prefix: "\<exists>rest. calls (checked h n es) @ rest = calls es"
  apply (induction h n es rule: checked.induct)
     apply (auto simp: calls_error_exit)
  subgoal for h e es rest
    by (cases e) auto
  done

lemma checked_cases:
  "checked h n es = es \<or> (\<exists>c r. Token c r \<in> set (checked h n es) \<and> ret r \<noteq> CKR_OK h)"
  by (induction h n es rule: checked.induct) auto

lemma Token_in_calls: "Token c r \<in> set es \<Longrightarrow> (c, r) \<in> set (calls es)"
  by (induction es rule: calls.induct) auto

lemma count_names:
  "count_list [''C_Initialize'', ''C_OpenSession'', ''C_Login'', ''C_GenerateKeyPair'',
      ''C_SignInit'', ''C_Sign'', ''C_Sign'', ''C_VerifyInit'', ''C_Verify'',
      ''C_CloseSession'', ''C_Finalize''] f \<le> (if f = ''C_Sign'' then 2 else 1)"
  by auto

subsection \<open>Errors\<close>

text \<open>
  Claim C1, as the program has it. For each of the nine calls from \<open>C_Initialize\<close> to
  \<open>C_Verify\<close>, a return value other than \<open>CKR_OK\<close> is fatal: the program prints the
  value and exits with no further call into the library. The return values of the
  last two calls are not looked at: after \<open>C_CloseSession\<close>, whatever it returned,
  \<open>C_Finalize\<close> is called and \<open>main\<close> returns; after \<open>C_Finalize\<close>, \<open>main\<close> returns.
\<close>

theorem failure_of_checked_call_is_fatal:
  assumes "snd (main h env w) = pre @ Token c r # post"
  shows "(api_name c \<notin> {''C_CloseSession'', ''C_Finalize''} \<and> ret r \<noteq> CKR_OK h \<longrightarrow>
            post = [Printf (''Error '' @ fmt_08lx (ret r) @ [CHR 0x0A]), Exit (- 1)]) \<and>
         (api_name c = ''C_CloseSession'' \<longrightarrow>
            (\<exists>r'. post = [Token (C_Finalize NULL) r', Return 0])) \<and>
         (api_name c = ''C_Finalize'' \<longrightarrow> post = [Return 0])"
proof -
  obtain r1 r2 r3 r4 r5 r6 q r7 r8 r9 r10 r11 where
    "snd (main h env w) = checked h 9 (script h r1 r2 r3 r4 r5 r6 q r7 r8 r9 r10 r11)"
    by (rule main_script)
  with assms
  have "checked h 9 (script h r1 r2 r3 r4 r5 r6 q r7 r8 r9 r10 r11) = pre @ Token c r # post"
    by simp
  then show ?thesis
    by (auto simp: script_def error_exit_def eval_nat_numeral Cons_eq_append_conv
          split: if_splits)
qed

theorem failure_of_checked_call_is_fatal_witness:
  "(snd (main pkcs11_v2_40 (failing ''C_Login'') ()) =
      take 2 (snd (main pkcs11_v2_40 (failing ''C_Login'') ())) @
      Token (C_Login 1 1 (Ref (Local ''password'') [0]) 0) (answer 5) #
      [Printf (''Error '' @ fmt_08lx 5 @ [CHR 0x0A]), Exit (- 1)] \<and>
    api_name (C_Login 1 1 (Ref (Local ''password'') [0]) 0)
      \<notin> {''C_CloseSession'', ''C_Finalize''} \<and>
    ret (answer 5) \<noteq> CKR_OK pkcs11_v2_40) \<and>
   (snd (main pkcs11_v2_40 (failing ''C_CloseSession'') ()) =
      take 10 (snd (main pkcs11_v2_40 (failing ''C_CloseSession'') ())) @
      Token (C_CloseSession 1) (answer 5) #
      [Token (C_Finalize NULL) (answer 0), Return 0] \<and>
    api_name (C_CloseSession 1) = ''C_CloseSession'') \<and>
   (snd (main pkcs11_v2_40 (failing []) ()) =
      take 11 (snd (main pkcs11_v2_40 (failing []) ())) @
      Token (C_Finalize NULL) (answer 0) # [Return 0] \<and>
    api_name (C_Finalize NULL) = ''C_Finalize'')"
proof -
  let ?a = "snd (main pkcs11_v2_40 (failing ''C_Login'') ())"
  let ?b = "snd (main pkcs11_v2_40 (failing ''C_CloseSession'') ())"
  let ?c = "snd (main pkcs11_v2_40 (failing []) ())"
  have a: "?a = take 2 ?a @ Token (C_Login 1 1 (Ref (Local ''password'') [0]) 0) (answer 5) #
      [Printf (''Error '' @ fmt_08lx 5 @ [CHR 0x0A]), Exit (- 1)]"
    by (simp add: run_login_fails)
  have b: "?b = take 10 ?b @ Token (C_CloseSession 1) (answer 5) #
      [Token (C_Finalize NULL) (answer 0), Return 0]"
    by (simp add: run_close_fails script_def answer_simps)
  have c: "?c = take 11 ?c @ Token (C_Finalize NULL) (answer 0) # [Return 0]"
    by (simp add: run_ok script_def answer_simps)
  have n: "api_name (C_Login 1 1 (Ref (Local ''password'') [0]) 0)
      \<notin> {''C_CloseSession'', ''C_Finalize''} \<and> ret (answer 5) \<noteq> CKR_OK pkcs11_v2_40"
    by (simp add: answer_simps header_simps)
  note failure_of_checked_call_is_fatal [OF a] failure_of_checked_call_is_fatal [OF b]
    failure_of_checked_call_is_fatal [OF c]
  with a b c n show ?thesis
    by simp
qed

text \<open>
  As claim C1 is written (every call that fails is fatal), it is false: when only
  \<open>C_CloseSession\<close> fails, nothing is printed, \<open>C_Finalize\<close> is still called and
  \<open>main\<close> returns 0.
\<close>

theorem close_session_failure_not_fatal:
  "drop 10 (snd (main pkcs11_v2_40 (failing ''C_CloseSession'') ())) =
     [Token (C_CloseSession 1) (answer 5), Token (C_Finalize NULL) (answer 0), Return 0] \<and>
   ret (answer 5) \<noteq> CKR_OK pkcs11_v2_40"
  by (simp add: run_close_fails script_def answer_simps header_simps)

subsection \<open>The order of the calls\<close>

text \<open>
  Claim C2, as the program has it. A run in which \<open>main\<close> returns has made these calls
  in this order: initialisation, session open, login, key-pair generation, signing
  (\<open>C_SignInit\<close> and two calls of \<open>C_Sign\<close>), verification (\<open>C_VerifyInit\<close> and
  \<open>C_Verify\<close>), session close, finalisation. Each of the first nine returned
  \<open>CKR_OK\<close>, so every call up to the session close was made only after the one before
  it had succeeded; the finalisation follows the session close whatever that returned.
\<close>

theorem completed_run_order:
  assumes "last (snd (main h env w)) = Return 0"
  shows "map (api_name \<circ> fst) (calls (snd (main h env w))) =
           [''C_Initialize'', ''C_OpenSession'', ''C_Login'', ''C_GenerateKeyPair'',
            ''C_SignInit'', ''C_Sign'', ''C_Sign'', ''C_VerifyInit'', ''C_Verify'',
            ''C_CloseSession'', ''C_Finalize''] \<and>
         map (ret \<circ> snd) (take 9 (calls (snd (main h env w)))) = replicate 9 (CKR_OK h)"
proof -
  obtain r1 r2 r3 r4 r5 r6 q r7 r8 r9 r10 r11 where
    "snd (main h env w) = checked h 9 (script h r1 r2 r3 r4 r5 r6 q r7 r8 r9 r10 r11)"
    by (rule main_script)
  with assms show ?thesis
    by (auto simp: script_def error_exit_def eval_nat_numeral split: if_splits)
qed

theorem completed_run_order_witness:
  "last (snd (main pkcs11_v2_40 (failing ''C_CloseSession'') ())) = Return 0 \<and>
   (map (api_name \<circ> fst) (calls (snd (main pkcs11_v2_40 (failing ''C_CloseSession'') ()))) =
      [''C_Initialize'', ''C_OpenSession'', ''C_Login'', ''C_GenerateKeyPair'',
       ''C_SignInit'', ''C_Sign'', ''C_Sign'', ''C_VerifyInit'', ''C_Verify'',
       ''C_CloseSession'', ''C_Finalize''] \<and>
    map (ret \<circ> snd) (take 9 (calls (snd (main pkcs11_v2_40 (failing ''C_CloseSession'') ()))))
      = replicate 9 (CKR_OK pkcs11_v2_40))"
proof -
  have m: "last (snd (main pkcs11_v2_40 (failing ''C_CloseSession'') ())) = Return 0"
    by (simp add: run_close_fails script_def)
  from m completed_run_order [OF m] show ?thesis
    by (rule conjI)
qed

text \<open>
  As claim C2 is written (each step only after the preceding step returned success),
  it is false for the last step: in this run \<open>main\<close> returns, the session close
  returned an error, and the finalisation was called after it.
\<close>

theorem finalize_after_failed_close:
  "last (snd (main pkcs11_v2_40 (failing ''C_CloseSession'') ())) = Return 0 \<and>
   drop 9 (calls (snd (main pkcs11_v2_40 (failing ''C_CloseSession'') ()))) =
     [(C_CloseSession 1, answer 5), (C_Finalize NULL, answer 0)] \<and>
   ret (answer 5) \<noteq> CKR_OK pkcs11_v2_40"
  by (simp add: run_close_fails script_def answer_simps header_simps)

subsection \<open>The number of calls\<close>

text \<open>
  Claim C5, as the program has it. A run in which every call into the library returns
  \<open>CKR_OK\<close> consists of exactly eleven calls into the library, to ten functions of
  which \<open>C_Sign\<close> is called twice, after which \<open>main\<close> returns.
\<close>

theorem successful_run_eleven_calls:
  assumes "set (map (ret \<circ> snd) (calls (snd (main h env w)))) \<subseteq> {CKR_OK h}"
  shows "length (calls (snd (main h env w))) = 11 \<and> last (snd (main h env w)) = Return 0 \<and>
         map (api_name \<circ> fst) (calls (snd (main h env w))) =
           [''C_Initialize'', ''C_OpenSession'', ''C_Login'', ''C_GenerateKeyPair'',
            ''C_SignInit'', ''C_Sign'', ''C_Sign'', ''C_VerifyInit'', ''C_Verify'',
            ''C_CloseSession'', ''C_Finalize'']"
proof -
  obtain r1 r2 r3 r4 r5 r6 q r7 r8 r9 r10 r11 where
    run: "snd (main h env w) = checked h 9 (script h r1 r2 r3 r4 r5 r6 q r7 r8 r9 r10 r11)"
    by (rule main_script)
  have "ret r = CKR_OK h" if "Token c r \<in> set (snd (main h env w))" for c r
  proof -
    from that have "(c, r) \<in> set (calls (snd (main h env w)))"
      by (rule Token_in_calls)
    then have "ret r \<in> set (map (ret \<circ> snd) (calls (snd (main h env w))))"
      by force
    with assms show ?thesis
      by auto
  qed
  with checked_cases [of h 9 "script h r1 r2 r3 r4 r5 r6 q r7 r8 r9 r10 r11"]
  have "snd (main h env w) = script h r1 r2 r3 r4 r5 r6 q r7 r8 r9 r10 r11"
    unfolding run by blast
  then show ?thesis
    by (simp add: script_def)
qed

theorem successful_run_eleven_calls_witness:
  "set (map (ret \<circ> snd) (calls (snd (main pkcs11_v2_40 (failing []) ()))))
     \<subseteq> {CKR_OK pkcs11_v2_40} \<and>
   (length (calls (snd (main pkcs11_v2_40 (failing []) ()))) = 11 \<and>
    last (snd (main pkcs11_v2_40 (failing []) ())) = Return 0 \<and>
    map (api_name \<circ> fst) (calls (snd (main pkcs11_v2_40 (failing []) ()))) =
           [''C_Initialize'', ''C_OpenSession'', ''C_Login'', ''C_GenerateKeyPair'',
            ''C_SignInit'', ''C_Sign'', ''C_Sign'', ''C_VerifyInit'', ''C_Verify'',
            ''C_CloseSession'', ''C_Finalize''])"
proof -
  have m: "set (map (ret \<circ> snd) (calls (snd (main pkcs11_v2_40 (failing []) ()))))
     \<subseteq> {CKR_OK pkcs11_v2_40}"
    unfolding run_ok script_def
    by (simp add: answer_simps header_simps)
  from m successful_run_eleven_calls [OF m] show ?thesis
    by (rule conjI)
qed

text \<open>
  As claim C5 is written (exactly nine calls), it is false: the run in which every
  call succeeds has eleven.
\<close>

theorem successful_run_not_nine_calls:
  "set (map (ret \<circ> snd) (calls (snd (main pkcs11_v2_40 (failing []) ())))) =
     {CKR_OK pkcs11_v2_40} \<and>
   last (snd (main pkcs11_v2_40 (failing []) ())) = Return 0 \<and>
   length (calls (snd (main pkcs11_v2_40 (failing []) ()))) = 11"
  by (simp add: run_ok script_def answer_simps header_simps)

subsection \<open>No loop and no retry\<close>

text \<open>
  Claim C6, as the program has it. The calls into the library of any run are an initial
  part of one straight-line sequence of eleven calls, in which \<open>C_Sign\<close> occurs twice
  (the length query, then the signing) and every other function once. The arguments
  are constants of the program, except for the session handle \<open>hs\<close>, the key handles
  \<open>pub\<close> and \<open>prv\<close>, the signature lengths \<open>len\<close> and \<open>sl\<close> and the signature buffer
  \<open>p\<close> and \<open>sg\<close>, which vary with the run (claims C3, C7 and C8 say where they come
  from). So in no run is a function other than \<open>C_Sign\<close> called more than once, or
  \<open>C_Sign\<close> more than twice.
\<close>

theorem straight_line_calls:
  "(\<exists>hs pub prv len p sg sl rest.
      map fst (calls (snd (main h env w))) @ rest =
        [C_Initialize NULL,
         C_OpenSession 0 (CKF_SERIAL_SESSION h OR CKF_RW_SESSION h) NULL NULL
           (Ref (Local ''hSession'') 0),
         C_Login hs (CKU_USER h) (Ref (Local ''password'') [0]) 0,
         C_GenerateKeyPair hs
           (Ref (Local ''ecdsa_gen'')
             \<lparr>mechanism = CKM_EC_KEY_PAIR_GEN h, pParameter = NULL, ulParameterLen = 0\<rparr>)
           (Ref (Local ''pub_template'')
             [\<lparr>type = CKA_TOKEN h, pValue = Ref (Local ''ck_false'') [CK_FALSE h],
               ulValueLen = 1\<rparr>,
              \<lparr>type = CKA_EC_PARAMS h,
               pValue = Ref (Local ''p256_curve'')
                 [0x06, 0x08, 0x2a, 0x86, 0x48, 0xce, 0x3d, 0x03, 0x01, 0x07],
               ulValueLen = 10\<rparr>]) 2
           (Ref (Local ''prv_template'')
             [\<lparr>type = CKA_TOKEN h, pValue = Ref (Local ''ck_true'') [CK_TRUE h],
               ulValueLen = 1\<rparr>,
              \<lparr>type = CKA_SIGN h, pValue = Ref (Local ''ck_true'') [CK_TRUE h],
               ulValueLen = 1\<rparr>]) 2
           (Ref (Local ''pub_key'') 0) (Ref (Local ''prv_key'') 0),
         C_SignInit hs
           (Ref (Local ''ecdsa_sign'')
             \<lparr>mechanism = CKM_ECDSA_SHA256 h, pParameter = NULL, ulParameterLen = 0\<rparr>) prv,
         C_Sign hs (Ref (Local ''data_to_sign'') (string_literal ''data to sign'')) 13 NULL
           (Ref (Local ''signature_len'') None),
         C_Sign hs (Ref (Local ''data_to_sign'') (string_literal ''data to sign'')) 13 p
           (Ref (Local ''signature_len'') (Some len)),
         C_VerifyInit hs
           (Ref (Local ''ecdsa_sign'')
             \<lparr>mechanism = CKM_ECDSA_SHA256 h, pParameter = NULL, ulParameterLen = 0\<rparr>) pub,
         C_Verify hs (Ref (Local ''data_to_sign'') (string_literal ''data to sign'')) 13 sg sl,
         C_CloseSession hs,
         C_Finalize NULL]) \<and>
   count_list (map (api_name \<circ> fst) (calls (snd (main h env w)))) f
     \<le> (if f = ''C_Sign'' then 2 else 1)"
proof -
  let ?names = "map (api_name \<circ> fst) (calls (snd (main h env w)))"
  obtain r1 r2 r3 r4 r5 r6 q r7 r8 r9 r10 r11 where
    run: "snd (main h env w) = checked h 9 (script h r1 r2 r3 r4 r5 r6 q r7 r8 r9 r10 r11)"
    by (rule main_script)
  obtain rest where
    "calls (checked h 9 (script h r1 r2 r3 r4 r5 r6 q r7 r8 r9 r10 r11)) @ rest =
       calls (script h r1 r2 r3 r4 r5 r6 q r7 r8 r9 r10 r11)"
    using calls_checked_prefix by blast
  then have "map fst (calls (snd (main h env w))) @ map fst rest =
      map fst (calls (script h r1 r2 r3 r4 r5 r6 q r7 r8 r9 r10 r11))"
    unfolding run by (simp flip: map_append)
  then have eq: "map fst (calls (snd (main h env w))) @ map fst rest =
        [C_Initialize NULL,
         C_OpenSession 0 (CKF_SERIAL_SESSION h OR CKF_RW_SESSION h) NULL NULL
           (Ref (Local ''hSession'') 0),
         C_Login (phSession_out r2) (CKU_USER h) (Ref (Local ''password'') [0]) 0,
         C_GenerateKeyPair (phSession_out r2)
           (Ref (Local ''ecdsa_gen'')
             \<lparr>mechanism = CKM_EC_KEY_PAIR_GEN h, pParameter = NULL, ulParameterLen = 0\<rparr>)
           (Ref (Local ''pub_template'')
             [\<lparr>type = CKA_TOKEN h, pValue = Ref (Local ''ck_false'') [CK_FALSE h],
               ulValueLen = 1\<rparr>,
              \<lparr>type = CKA_EC_PARAMS h,
               pValue = Ref (Local ''p256_curve'')
                 [0x06, 0x08, 0x2a, 0x86, 0x48, 0xce, 0x3d, 0x03, 0x01, 0x07],
               ulValueLen = 10\<rparr>]) 2
           (Ref (Local ''prv_template'')
             [\<lparr>type = CKA_TOKEN h, pValue = Ref (Local ''ck_true'') [CK_TRUE h],
               ulValueLen = 1\<rparr>,
              \<lparr>type = CKA_SIGN h, pValue = Ref (Local ''ck_true'') [CK_TRUE h],
               ulValueLen = 1\<rparr>]) 2
           (Ref (Local ''pub_key'') 0) (Ref (Local ''prv_key'') 0),
         C_SignInit (phSession_out r2)
           (Ref (Local ''ecdsa_sign'')
             \<lparr>mechanism = CKM_ECDSA_SHA256 h, pParameter = NULL, ulParameterLen = 0\<rparr>)
           (phPrivateKey_out r4),
         C_Sign (phSession_out r2)
           (Ref (Local ''data_to_sign'') (string_literal ''data to sign'')) 13 NULL
           (Ref (Local ''signature_len'') None),
         C_Sign (phSession_out r2)
           (Ref (Local ''data_to_sign'') (string_literal ''data to sign'')) 13 q
           (Ref (Local ''signature_len'') (Some (pulSignatureLen_out r6))),
         C_VerifyInit (phSession_out r2)
           (Ref (Local ''ecdsa_sign'')
             \<lparr>mechanism = CKM_ECDSA_SHA256 h, pParameter = NULL, ulParameterLen = 0\<rparr>)
           (phPublicKey_out r4),
         C_Verify (phSession_out r2)
           (Ref (Local ''data_to_sign'') (string_literal ''data to sign'')) 13
           (stored q (pSignature_out r7)) (pulSignatureLen_out r7),
         C_CloseSession (phSession_out r2),
         C_Finalize NULL]"
    by (simp add: script_def)
  have "map api_name (map fst (calls (snd (main h env w))) @ map fst rest) =
      [''C_Initialize'', ''C_OpenSession'', ''C_Login'', ''C_GenerateKeyPair'',
       ''C_SignInit'', ''C_Sign'', ''C_Sign'', ''C_VerifyInit'', ''C_Verify'',
       ''C_CloseSession'', ''C_Finalize'']"
    unfolding eq by simp
  then have names: "?names @ map api_name (map fst rest) =
      [''C_Initialize'', ''C_OpenSession'', ''C_Login'', ''C_GenerateKeyPair'',
       ''C_SignInit'', ''C_Sign'', ''C_Sign'', ''C_VerifyInit'', ''C_Verify'',
       ''C_CloseSession'', ''C_Finalize'']"
    by simp
  have "count_list ?names f \<le> count_list (?names @ map api_name (map fst rest)) f"
    by simp
  also have "\<dots> \<le> (if f = ''C_Sign'' then 2 else 1)"
    unfolding names by (rule count_names)
  finally have count: "count_list ?names f \<le> (if f = ''C_Sign'' then 2 else 1)" .
  have "\<exists>hs pub prv len p sg sl rest.
      map fst (calls (snd (main h env w))) @ rest =
        [C_Initialize NULL,
         C_OpenSession 0 (CKF_SERIAL_SESSION h OR CKF_RW_SESSION h) NULL NULL
           (Ref (Local ''hSession'') 0),
         C_Login hs (CKU_USER h) (Ref (Local ''password'') [0]) 0,
         C_GenerateKeyPair hs
           (Ref (Local ''ecdsa_gen'')
             \<lparr>mechanism = CKM_EC_KEY_PAIR_GEN h, pParameter = NULL, ulParameterLen = 0\<rparr>)
           (Ref (Local ''pub_template'')
             [\<lparr>type = CKA_TOKEN h, pValue = Ref (Local ''ck_false'') [CK_FALSE h],
               ulValueLen = 1\<rparr>,
              \<lparr>type = CKA_EC_PARAMS h,
               pValue = Ref (Local ''p256_curve'')
                 [0x06, 0x08, 0x2a, 0x86, 0x48, 0xce, 0x3d, 0x03, 0x01, 0x07],
               ulValueLen = 10\<rparr>]) 2
           (Ref (Local ''prv_template'')
             [\<lparr>type = CKA_TOKEN h, pValue = Ref (Local ''ck_true'') [CK_TRUE h],
               ulValueLen = 1\<rparr>,
              \<lparr>type = CKA_SIGN h, pValue = Ref (Local ''ck_true'') [CK_TRUE h],
               ulValueLen = 1\<rparr>]) 2
           (Ref (Local ''pub_key'') 0) (Ref (Local ''prv_key'') 0),
         C_SignInit hs
           (Ref (Local ''ecdsa_sign'')
             \<lparr>mechanism = CKM_ECDSA_SHA256 h, pParameter = NULL, ulParameterLen = 0\<rparr>) prv,
         C_Sign hs (Ref (Local ''data_to_sign'') (string_literal ''data to sign'')) 13 NULL
           (Ref (Local ''signature_len'') None),
         C_Sign hs (Ref (Local ''data_to_sign'') (string_literal ''data to sign'')) 13 p
           (Ref (Local ''signature_len'') (Some len)),
         C_VerifyInit hs
           (Ref (Local ''ecdsa_sign'')
             \<lparr>mechanism = CKM_ECDSA_SHA256 h, pParameter = NULL, ulParameterLen = 0\<rparr>) pub,
         C_Verify hs (Ref (Local ''data_to_sign'') (string_literal ''data to sign'')) 13 sg sl,
         C_CloseSession hs,
         C_Finalize NULL]"
    by (intro exI) (rule eq)
  then show ?thesis
    using count by (rule conjI)
qed

theorem straight_line_calls_witness:
  "count_list (map (api_name \<circ> fst) (calls (snd (main pkcs11_v2_40 (failing []) ()))))
     ''C_Login'' \<le> (if ''C_Login'' = ''C_Sign'' then 2 else 1)"
  using straight_line_calls [of pkcs11_v2_40 "failing []" "()" "''C_Login''"]
  by (rule conjunct2)

text \<open>
  As claim C6 is written (no operation is invoked more than once), it is false: the run
  in which every call succeeds calls \<open>C_Sign\<close> twice.
\<close>

theorem sign_called_twice:
  "count_list (map (api_name \<circ> fst) (calls (snd (main pkcs11_v2_40 (failing []) ()))))
     ''C_Sign'' = 2"
  by (simp add: run_ok script_def)

subsection \<open>The session handle\<close>

text \<open>
  Claim C7. There is no state beyond the sequence of calls: \<open>C_OpenSession\<close> is called
  once, for slot 0, with the address of \<open>hSession\<close>; the handle that it stores there is
  the session argument of every later call that takes a session (\<open>C_Login\<close>,
  \<open>C_GenerateKeyPair\<close>, \<open>C_SignInit\<close>, \<open>C_Sign\<close>, \<open>C_VerifyInit\<close>, \<open>C_Verify\<close>,
  \<open>C_CloseSession\<close>), and the only later call that takes none is \<open>C_Finalize\<close>.
\<close>

theorem one_session_handle:
  assumes "snd (main h env w) = pre @ Token (C_OpenSession slot fl a ntf ph) r # post"
    and "Token c r' \<in> set post"
  shows "slot = 0 \<and> ph = Ref (Local ''hSession'') 0 \<and>
         (\<exists>r0. pre = [Token (C_Initialize NULL) r0]) \<and>
         api_name c \<noteq> ''C_OpenSession'' \<and>
         session_of c = (if api_name c = ''C_Finalize'' then None else Some (phSession_out r))"
proof -
  obtain r1 r2 r3 r4 r5 r6 q r7 r8 r9 r10 r11 where
    "snd (main h env w) = checked h 9 (script h r1 r2 r3 r4 r5 r6 q r7 r8 r9 r10 r11)"
    by (rule main_script)
  with assms(1)
  have "checked h 9 (script h r1 r2 r3 r4 r5 r6 q r7 r8 r9 r10 r11) =
      pre @ Token (C_OpenSession slot fl a ntf ph) r # post"
    by simp
  with assms(2) show ?thesis
    by (auto simp: script_def error_exit_def eval_nat_numeral Cons_eq_append_conv
          split: if_splits)
qed

theorem one_session_handle_witness:
  "(snd (main pkcs11_v2_40 (failing ''C_Login'') ()) =
      [Token (C_Initialize NULL) (answer 0)] @
      Token (C_OpenSession 0 6 NULL NULL (Ref (Local ''hSession'') 0)) (answer 0) #
      [Token (C_Login 1 1 (Ref (Local ''password'') [0]) 0) (answer 5),
       Printf (''Error '' @ fmt_08lx 5 @ [CHR 0x0A]), Exit (- 1)] \<and>
    Token (C_Login 1 1 (Ref (Local ''password'') [0]) 0) (answer 5)
      \<in> set [Token (C_Login 1 1 (Ref (Local ''password'') [0]) 0) (answer 5),
              Printf (''Error '' @ fmt_08lx 5 @ [CHR 0x0A]), Exit (- 1)]) \<and>
   session_of (C_Login 1 1 (Ref (Local ''password'') [0]) 0) = Some (phSession_out (answer 0))"
proof -
  have m: "snd (main pkcs11_v2_40 (failing ''C_Login'') ()) =
      [Token (C_Initialize NULL) (answer 0)] @
      Token (C_OpenSession 0 6 NULL NULL (Ref (Local ''hSession'') 0)) (answer 0) #
      [Token (C_Login 1 1 (Ref (Local ''password'') [0]) 0) (answer 5),
       Printf (''Error '' @ fmt_08lx 5 @ [CHR 0x0A]), Exit (- 1)]"
    by (simp add: run_login_fails)
  have k: "Token (C_Login 1 1 (Ref (Local ''password'') [0]) 0) (answer 5)
      \<in> set [Token (C_Login 1 1 (Ref (Local ''password'') [0]) 0) (answer 5),
              Printf (''Error '' @ fmt_08lx 5 @ [CHR 0x0A]), Exit (- 1)]"
    by simp
  from one_session_handle [OF m k]
  have "session_of (C_Login 1 1 (Ref (Local ''password'') [0]) 0) =
      Some (phSession_out (answer 0))"
    by simp
  with m k show ?thesis
    by blast
qed

subsection \<open>Signing and verification\<close>

text \<open>
  Claim C8. Signing is two calls of \<open>C_Sign\<close>. The first call of a run has a \<open>NULL\<close>
  signature buffer and the address of the uninitialised \<open>signature_len\<close>. When it
  returns \<open>CKR_OK\<close>, \<open>malloc\<close> is called with the length that the library stored, and
  the next call is \<open>C_Sign\<close> with the same session, data and data length, that length,
  and whatever \<open>malloc\<close> returned: the result is not tested, so a \<open>NULL\<close> from a failed
  allocation reaches the library.
\<close>

theorem sign_length_query_then_buffer:
  assumes "snd (main h env w) = pre @ Token (C_Sign hs d n sg l) r # post"
    and "''C_Sign'' \<notin> set (map (api_name \<circ> fst) (calls pre))"
  shows "sg = NULL \<and> l = Ref (Local ''signature_len'') None \<and>
         (if ret r = CKR_OK h
          then \<exists>p r' post'. post =
                 Malloc (pulSignatureLen_out r) p #
                 Token (C_Sign hs d n p
                   (Ref (Local ''signature_len'') (Some (pulSignatureLen_out r)))) r' # post'
          else post = [Printf (''Error '' @ fmt_08lx (ret r) @ [CHR 0x0A]), Exit (- 1)])"
proof -
  obtain r1 r2 r3 r4 r5 r6 q r7 r8 r9 r10 r11 where
    "snd (main h env w) = checked h 9 (script h r1 r2 r3 r4 r5 r6 q r7 r8 r9 r10 r11)"
    by (rule main_script)
  with assms(1)
  have "checked h 9 (script h r1 r2 r3 r4 r5 r6 q r7 r8 r9 r10 r11) =
      pre @ Token (C_Sign hs d n sg l) r # post"
    by simp
  with assms(2) show ?thesis
    by (auto simp: script_def error_exit_def eval_nat_numeral Cons_eq_append_conv
          split: if_splits)
qed

text \<open>The witness is a run in which \<open>malloc\<close> fails.\<close>

theorem sign_length_query_then_buffer_witness:
  "(snd (main pkcs11_v2_40 out_of_memory ()) =
      take 5 (snd (main pkcs11_v2_40 out_of_memory ())) @
      Token (C_Sign 1 (Ref (Local ''data_to_sign'') (string_literal ''data to sign'')) 13 NULL
        (Ref (Local ''signature_len'') None)) (answer 0) #
      drop 6 (snd (main pkcs11_v2_40 out_of_memory ())) \<and>
    ''C_Sign'' \<notin> set (map (api_name \<circ> fst)
      (calls (take 5 (snd (main pkcs11_v2_40 out_of_memory ())))))) \<and>
   take 2 (drop 6 (snd (main pkcs11_v2_40 out_of_memory ()))) =
     [Malloc 64 NULL,
      Token (C_Sign 1 (Ref (Local ''data_to_sign'') (string_literal ''data to sign'')) 13 NULL
        (Ref (Local ''signature_len'') (Some 64))) (answer 0)]"
proof -
  let ?evs = "snd (main pkcs11_v2_40 out_of_memory ())"
  have m: "?evs = take 5 ?evs @
      Token (C_Sign 1 (Ref (Local ''data_to_sign'') (string_literal ''data to sign'')) 13 NULL
        (Ref (Local ''signature_len'') None)) (answer 0) # drop 6 ?evs"
    by (simp add: run_out_of_memory script_def answer_simps header_simps)
  have k: "''C_Sign'' \<notin> set (map (api_name \<circ> fst) (calls (take 5 ?evs)))"
    by (simp add: run_out_of_memory script_def)
  from sign_length_query_then_buffer [OF m k]
  have "\<exists>p r' post'. drop 6 ?evs =
      Malloc 64 p #
      Token (C_Sign 1 (Ref (Local ''data_to_sign'') (string_literal ''data to sign'')) 13 p
        (Ref (Local ''signature_len'') (Some 64))) r' # post'"
    by (simp add: answer_simps header_simps)
  moreover have "take 2 (drop 6 ?evs) =
     [Malloc 64 NULL,
      Token (C_Sign 1 (Ref (Local ''data_to_sign'') (string_literal ''data to sign'')) 13 NULL
        (Ref (Local ''signature_len'') (Some 64))) (answer 0)]"
    by (simp add: run_out_of_memory script_def answer_simps header_simps)
  ultimately show ?thesis
    using m k by blast
qed

text \<open>
  Claim C3. Verification is of what signing produced. When a run calls \<open>C_Verify\<close>, its
  data pointer and data length are those of the two calls of \<open>C_Sign\<close>; its signature
  is the buffer given to the second call of \<open>C_Sign\<close>, holding what that call stored
  there, and its signature length is the one that call stored; that call and the
  generation of the key pair returned \<open>CKR_OK\<close>. The key given to \<open>C_VerifyInit\<close> (the
  prototype of \<open>C_Verify\<close> has no key) is the public key that \<open>C_GenerateKeyPair\<close>
  stored, and the key given to \<open>C_SignInit\<close> is the private key of the same call.
\<close>

theorem verify_takes_sign_output:
  assumes "Token (C_Verify hs d n sg sl) r \<in> set (snd (main h env w))"
  shows "\<exists>e1 e2 e3 m tp tq r4 m' r5 l6 r6 len p l7 r7 r8 post.
     snd (main h env w) =
       [e1, e2, e3,
        Token (C_GenerateKeyPair hs m tp 2 tq 2
          (Ref (Local ''pub_key'') 0) (Ref (Local ''prv_key'') 0)) r4,
        Token (C_SignInit hs m' (phPrivateKey_out r4)) r5,
        Token (C_Sign hs d n NULL l6) r6,
        Malloc len p,
        Token (C_Sign hs d n p l7) r7,
        Token (C_VerifyInit hs m' (phPublicKey_out r4)) r8,
        Token (C_Verify hs d n sg sl) r] @ post \<and>
     ret r4 = CKR_OK h \<and> ret r7 = CKR_OK h \<and>
     sg = stored p (pSignature_out r7) \<and> sl = pulSignatureLen_out r7"
proof -
  obtain r1 r2 r3 r4 r5 r6 q r7 r8 r9 r10 r11 where
    "snd (main h env w) = checked h 9 (script h r1 r2 r3 r4 r5 r6 q r7 r8 r9 r10 r11)"
    by (rule main_script)
  with assms show ?thesis
    by (auto simp: script_def error_exit_def eval_nat_numeral split: if_splits)
qed

theorem verify_takes_sign_output_witness:
  "Token (C_Verify 1 (Ref (Local ''data_to_sign'') (string_literal ''data to sign'')) 13
       (Ref (Heap 0) sig64) 64) (answer 0)
      \<in> set (snd (main pkcs11_v2_40 (failing []) ())) \<and>
   (\<exists>e1 e2 e3 m tp tq r4 m' r5 l6 r6 len p l7 r7 r8 post.
     snd (main pkcs11_v2_40 (failing []) ()) =
       [e1, e2, e3,
        Token (C_GenerateKeyPair 1 m tp 2 tq 2
          (Ref (Local ''pub_key'') 0) (Ref (Local ''prv_key'') 0)) r4,
        Token (C_SignInit 1 m' (phPrivateKey_out r4)) r5,
        Token (C_Sign 1 (Ref (Local ''data_to_sign'') (string_literal ''data to sign'')) 13
          NULL l6) r6,
        Malloc len p,
        Token (C_Sign 1 (Ref (Local ''data_to_sign'') (string_literal ''data to sign'')) 13
          p l7) r7,
        Token (C_VerifyInit 1 m' (phPublicKey_out r4)) r8,
        Token (C_Verify 1 (Ref (Local ''data_to_sign'') (string_literal ''data to sign'')) 13
          (Ref (Heap 0) sig64) 64) (answer 0)] @ post \<and>
     ret r4 = CKR_OK pkcs11_v2_40 \<and> ret r7 = CKR_OK pkcs11_v2_40 \<and>
     Ref (Heap 0) sig64 = stored p (pSignature_out r7) \<and> 64 = pulSignatureLen_out r7)"
proof -
  have m: "Token (C_Verify 1 (Ref (Local ''data_to_sign'') (string_literal ''data to sign'')) 13
       (Ref (Heap 0) sig64) 64) (answer 0)
      \<in> set (snd (main pkcs11_v2_40 (failing []) ()))"
    by (simp add: run_ok script_def answer_simps header_simps)
  from m verify_takes_sign_output [OF m] show ?thesis
    by (rule conjI)
qed

subsection \<open>The data that is signed\<close>

text \<open>
  Claim C9. The byte string that is signed and verified is the array \<open>data_to_sign\<close>:
  the 12 characters of "data to sign" and the terminating 0, 13 bytes, because the
  length passed to every call of \<open>C_Sign\<close> and of \<open>C_Verify\<close> is \<open>sizeof\<close> of the
  array.
\<close>

theorem signed_data_thirteen_bytes:
  assumes "Token c r \<in> set (snd (main h env w))"
    and "c = C_Sign hs d n sg l \<or> c = C_Verify hs d n sg' sl"
  shows "d = Ref (Local ''data_to_sign'') (map of_char ''data to sign'' @ [0]) \<and>
         n = 13 \<and> unat n = length ''data to sign'' + 1"
proof -
  obtain r1 r2 r3 r4 r5 r6 q r7 r8 r9 r10 r11 where
    "snd (main h env w) = checked h 9 (script h r1 r2 r3 r4 r5 r6 q r7 r8 r9 r10 r11)"
    by (rule main_script)
  with assms
  have "d = Ref (Local ''data_to_sign'') (string_literal ''data to sign'') \<and> n = 13"
    by (auto simp: script_def error_exit_def eval_nat_numeral split: if_splits)
  then show ?thesis
    by (simp add: string_literal_def)
qed

theorem signed_data_thirteen_bytes_witness:
  "(Token (C_Verify 1 (Ref (Local ''data_to_sign'') (string_literal ''data to sign'')) 13
       (Ref (Heap 0) sig64) 64) (answer 0)
      \<in> set (snd (main pkcs11_v2_40 (failing []) ())) \<and>
    (C_Verify 1 (Ref (Local ''data_to_sign'') (string_literal ''data to sign'')) 13
       (Ref (Heap 0) sig64) 64
      = C_Sign 1 (Ref (Local ''data_to_sign'') (string_literal ''data to sign'')) 13 NULL NULL \<or>
     C_Verify 1 (Ref (Local ''data_to_sign'') (string_literal ''data to sign'')) 13
       (Ref (Heap 0) sig64) 64
      = C_Verify 1 (Ref (Local ''data_to_sign'') (string_literal ''data to sign'')) 13
       (Ref (Heap 0) sig64) 64)) \<and>
   (Ref (Local ''data_to_sign'') (string_literal ''data to sign'')
      = Ref (Local ''data_to_sign'') (map of_char ''data to sign'' @ [0]) \<and>
    (13 :: CK_ULONG) = 13 \<and> unat (13 :: CK_ULONG) = length ''data to sign'' + 1)"
proof -
  have m: "Token (C_Verify 1 (Ref (Local ''data_to_sign'') (string_literal ''data to sign'')) 13
       (Ref (Heap 0) sig64) 64) (answer 0)
      \<in> set (snd (main pkcs11_v2_40 (failing []) ()))"
    by (simp add: run_ok script_def answer_simps header_simps)
  have k: "C_Verify 1 (Ref (Local ''data_to_sign'') (string_literal ''data to sign'')) 13
       (Ref (Heap 0) sig64) 64
      = C_Sign 1 (Ref (Local ''data_to_sign'') (string_literal ''data to sign'')) 13 NULL NULL \<or>
     C_Verify 1 (Ref (Local ''data_to_sign'') (string_literal ''data to sign'')) 13
       (Ref (Heap 0) sig64) 64
      = C_Verify 1 (Ref (Local ''data_to_sign'') (string_literal ''data to sign'')) 13
       (Ref (Heap 0) sig64) 64"
    by simp
  from m k signed_data_thirteen_bytes [OF m k] show ?thesis
    by blast
qed

subsection \<open>Mechanisms and parameters\<close>

text \<open>
  Claim C4. The cryptographic choices are passed to the library as fixed values: every
  call of \<open>C_GenerateKeyPair\<close> has the mechanism \<open>CKM_EC_KEY_PAIR_GEN\<close> without
  parameter and, as the \<open>CKA_EC_PARAMS\<close> attribute of the public-key template, the
  bytes 06 08 2a 86 48 ce 3d 03 01 07; every call of \<open>C_SignInit\<close> and of
  \<open>C_VerifyInit\<close> has the one mechanism \<open>CKM_ECDSA_SHA256\<close> with a \<open>NULL\<close>
  parameter. The values do not depend on the run.
\<close>

theorem fixed_mechanisms:
  assumes "Token c r \<in> set (snd (main h env w))"
  shows "(\<forall>hs m tp np tq nq pk qk. c = C_GenerateKeyPair hs m tp np tq nq pk qk \<longrightarrow>
            m = Ref (Local ''ecdsa_gen'')
                  \<lparr>mechanism = CKM_EC_KEY_PAIR_GEN h, pParameter = NULL, ulParameterLen = 0\<rparr> \<and>
            (\<exists>a. tp = Ref (Local ''pub_template'')
                  [a, \<lparr>type = CKA_EC_PARAMS h,
                       pValue = Ref (Local ''p256_curve'')
                         [0x06, 0x08, 0x2a, 0x86, 0x48, 0xce, 0x3d, 0x03, 0x01, 0x07],
                       ulValueLen = 10\<rparr>])) \<and>
         (\<forall>hs m k. c = C_SignInit hs m k \<or> c = C_VerifyInit hs m k \<longrightarrow>
            m = Ref (Local ''ecdsa_sign'')
                  \<lparr>mechanism = CKM_ECDSA_SHA256 h, pParameter = NULL, ulParameterLen = 0\<rparr>)"
proof -
  obtain r1 r2 r3 r4 r5 r6 q r7 r8 r9 r10 r11 where
    "snd (main h env w) = checked h 9 (script h r1 r2 r3 r4 r5 r6 q r7 r8 r9 r10 r11)"
    by (rule main_script)
  with assms show ?thesis
    by (auto simp: script_def error_exit_def eval_nat_numeral split: if_splits)
qed

theorem fixed_mechanisms_witness:
  "(Token (C_GenerateKeyPair 1
        (Ref (Local ''ecdsa_gen'') \<lparr>mechanism = 0x1040, pParameter = NULL, ulParameterLen = 0\<rparr>)
        (Ref (Local ''pub_template'')
          [\<lparr>type = 1, pValue = Ref (Local ''ck_false'') [0], ulValueLen = 1\<rparr>,
           \<lparr>type = 0x180,
            pValue = Ref (Local ''p256_curve'')
              [0x06, 0x08, 0x2a, 0x86, 0x48, 0xce, 0x3d, 0x03, 0x01, 0x07],
            ulValueLen = 10\<rparr>]) 2
        (Ref (Local ''prv_template'')
          [\<lparr>type = 1, pValue = Ref (Local ''ck_true'') [1], ulValueLen = 1\<rparr>,
           \<lparr>type = 0x108, pValue = Ref (Local ''ck_true'') [1], ulValueLen = 1\<rparr>]) 2
        (Ref (Local ''pub_key'') 0) (Ref (Local ''prv_key'') 0)) (answer 0)
      \<in> set (snd (main pkcs11_v2_40 (failing []) ())) \<and>
    Token (C_SignInit 1
        (Ref (Local ''ecdsa_sign'') \<lparr>mechanism = 0x1044, pParameter = NULL, ulParameterLen = 0\<rparr>) 3) (answer 0)
      \<in> set (snd (main pkcs11_v2_40 (failing []) ())) \<and>
    Token (C_VerifyInit 1
        (Ref (Local ''ecdsa_sign'') \<lparr>mechanism = 0x1044, pParameter = NULL, ulParameterLen = 0\<rparr>) 2) (answer 0)
      \<in> set (snd (main pkcs11_v2_40 (failing []) ()))) \<and>
   (Ref (Local ''ecdsa_gen'') \<lparr>mechanism = 0x1040, pParameter = NULL, ulParameterLen = 0\<rparr>
      = Ref (Local ''ecdsa_gen'')
          \<lparr>mechanism = CKM_EC_KEY_PAIR_GEN pkcs11_v2_40, pParameter = NULL, ulParameterLen = 0\<rparr> \<and>
    Ref (Local ''ecdsa_sign'') \<lparr>mechanism = 0x1044, pParameter = NULL, ulParameterLen = 0\<rparr>
      = Ref (Local ''ecdsa_sign'')
          \<lparr>mechanism = CKM_ECDSA_SHA256 pkcs11_v2_40, pParameter = NULL, ulParameterLen = 0\<rparr>)"
proof -
  have g: "Token (C_GenerateKeyPair 1
        (Ref (Local ''ecdsa_gen'') \<lparr>mechanism = 0x1040, pParameter = NULL, ulParameterLen = 0\<rparr>)
        (Ref (Local ''pub_template'')
          [\<lparr>type = 1, pValue = Ref (Local ''ck_false'') [0], ulValueLen = 1\<rparr>,
           \<lparr>type = 0x180,
            pValue = Ref (Local ''p256_curve'')
              [0x06, 0x08, 0x2a, 0x86, 0x48, 0xce, 0x3d, 0x03, 0x01, 0x07],
            ulValueLen = 10\<rparr>]) 2
        (Ref (Local ''prv_template'')
          [\<lparr>type = 1, pValue = Ref (Local ''ck_true'') [1], ulValueLen = 1\<rparr>,
           \<lparr>type = 0x108, pValue = Ref (Local ''ck_true'') [1], ulValueLen = 1\<rparr>]) 2
        (Ref (Local ''pub_key'') 0) (Ref (Local ''prv_key'') 0)) (answer 0)
      \<in> set (snd (main pkcs11_v2_40 (failing []) ()))"
    by (simp add: run_ok script_def answer_simps header_simps)
  have s: "Token (C_SignInit 1
        (Ref (Local ''ecdsa_sign'') \<lparr>mechanism = 0x1044, pParameter = NULL, ulParameterLen = 0\<rparr>) 3) (answer 0)
      \<in> set (snd (main pkcs11_v2_40 (failing []) ()))"
    by (simp add: run_ok script_def answer_simps header_simps)
  have v: "Token (C_VerifyInit 1
        (Ref (Local ''ecdsa_sign'') \<lparr>mechanism = 0x1044, pParameter = NULL, ulParameterLen = 0\<rparr>) 2) (answer 0)
      \<in> set (snd (main pkcs11_v2_40 (failing []) ()))"
    by (simp add: run_ok script_def answer_simps header_simps)
  from fixed_mechanisms [OF g]
  have 1: "Ref (Local ''ecdsa_gen'') \<lparr>mechanism = 0x1040, pParameter = NULL, ulParameterLen = 0\<rparr>
      = Ref (Local ''ecdsa_gen'')
          \<lparr>mechanism = CKM_EC_KEY_PAIR_GEN pkcs11_v2_40, pParameter = NULL, ulParameterLen = 0\<rparr>"
    by blast
  from fixed_mechanisms [OF s] fixed_mechanisms [OF v]
  have 2: "Ref (Local ''ecdsa_sign'') \<lparr>mechanism = 0x1044, pParameter = NULL, ulParameterLen = 0\<rparr>
      = Ref (Local ''ecdsa_sign'')
          \<lparr>mechanism = CKM_ECDSA_SHA256 pkcs11_v2_40, pParameter = NULL, ulParameterLen = 0\<rparr>"
    by blast
  from g s v 1 2 show ?thesis
    by blast
qed

subsection \<open>Login\<close>

text \<open>
  Claim C10. Login is always as user type \<open>CKU_USER\<close> with an empty PIN: in every call
  of \<open>C_Login\<close> that a run makes, the PIN pointer is the array \<open>password\<close>, which holds
  the empty string (its terminating 0 only), and the PIN length is \<open>strlen\<close> of it,
  which is 0.
\<close>

theorem login_user_empty_pin:
  assumes "Token (C_Login hs u p n) r \<in> set (snd (main h env w))"
  shows "u = CKU_USER h \<and> p = Ref (Local ''password'') (string_literal '''') \<and>
         string_literal '''' = [0] \<and> n = of_nat (strlen (string_literal '''')) \<and> n = 0"
proof -
  obtain r1 r2 r3 r4 r5 r6 q r7 r8 r9 r10 r11 where
    "snd (main h env w) = checked h 9 (script h r1 r2 r3 r4 r5 r6 q r7 r8 r9 r10 r11)"
    by (rule main_script)
  with assms show ?thesis
    by (auto simp: script_def error_exit_def eval_nat_numeral string_literal_empty
          strlen_empty split: if_splits)
qed

theorem login_user_empty_pin_witness:
  "Token (C_Login 1 1 (Ref (Local ''password'') [0]) 0) (answer 0)
      \<in> set (snd (main pkcs11_v2_40 (failing []) ())) \<and>
   (1 = CKU_USER pkcs11_v2_40 \<and>
    Ref (Local ''password'') [0] = Ref (Local ''password'') (string_literal '''') \<and>
    string_literal '''' = [0] \<and> (0 :: CK_ULONG) = of_nat (strlen (string_literal '''')) \<and>
    (0 :: CK_ULONG) = 0)"
proof -
  have m: "Token (C_Login 1 1 (Ref (Local ''password'') [0]) 0) (answer 0)
      \<in> set (snd (main pkcs11_v2_40 (failing []) ()))"
    by (simp add: run_ok script_def answer_simps header_simps)
  from m login_user_empty_pin [OF m] show ?thesis
    by (rule conjI)
qed

end
